theory Spec2Isabelle
  imports Main "HOL-Library.Word"
begin

section \<open>The agent configuration of config.go\<close>

text \<open>
  The Go package declares one struct, \<open>Config\<close>, whose fields are strings, booleans,
  two interface values, a map, and a number of anonymous nested structs.  Each struct is a
  record here.  Go lets every nested struct have a field called \<open>Enabled\<close>; record
  fields share one name space, so a field of a nested struct carries the name of the struct
  in front: \<open>c.TransactionEvents.Enabled\<close> is
  \<open>TransactionEvents_Enabled (TransactionEvents c)\<close>.  The fields of \<open>Config\<close> itself keep
  their names.

  A Go \<open>string\<close> is a sequence of bytes and \<open>len\<close> counts bytes; a HOL \<open>string\<close> is a
  list of 8-bit characters and \<open>length\<close> counts them.  \<open>time.Duration\<close> is a signed
  64-bit count of nanoseconds.  The interface types \<open>Logger\<close> and \<open>http.RoundTripper\<close> are
  opaque; a field of such a type holds \<open>None\<close> for the nil interface.  A map-typed field
  is \<open>None\<close> for the nil map.  Go's \<open>int\<close> is modelled by \<open>int\<close>: the code stores such
  values and never computes with them.
\<close>

typedecl Logger
typedecl RoundTripper

type_synonym Duration = "64 word"

definition Millisecond :: Duration where
  "Millisecond = 1000000"

definition StatusNotFound :: int where
  "StatusNotFound = 404"

record AttributeDestinationConfig =
  AttributeDestinationConfig_Enabled :: bool
  Include :: "string list"
  Exclude :: "string list"

record CustomInsightsEvents_struct =
  CustomInsightsEvents_Enabled :: bool

record TransactionEvents_struct =
  TransactionEvents_Enabled :: bool
  TransactionEvents_Attributes :: AttributeDestinationConfig

record ErrorCollector_struct =
  ErrorCollector_Enabled :: bool
  ErrorCollector_CaptureEvents :: bool
  ErrorCollector_IgnoreStatusCodes :: "int list"
  ErrorCollector_Attributes :: AttributeDestinationConfig

record Threshold_struct =
  Threshold_IsApdexFailing :: bool
  Threshold_Duration :: Duration

record TransactionTracer_struct =
  TransactionTracer_Enabled :: bool
  TransactionTracer_Threshold :: Threshold_struct
  TransactionTracer_SegmentThreshold :: Duration
  TransactionTracer_StackTraceThreshold :: Duration
  TransactionTracer_Attributes :: AttributeDestinationConfig

record Utilization_struct =
  Utilization_DetectAWS :: bool
  Utilization_DetectAzure :: bool
  Utilization_DetectPCF :: bool
  Utilization_DetectGCP :: bool
  Utilization_DetectDocker :: bool
  Utilization_DetectKubernetes :: bool
  Utilization_LogicalProcessors :: int
  Utilization_TotalRAMMIB :: int
  Utilization_BillingHostname :: string

record CrossApplicationTracer_struct =
  CrossApplicationTracer_Enabled :: bool

record DistributedTracer_struct =
  DistributedTracer_Enabled :: bool

record SpanEvents_struct =
  SpanEvents_Enabled :: bool

record InstanceReporting_struct =
  InstanceReporting_Enabled :: bool

record DatabaseNameReporting_struct =
  DatabaseNameReporting_Enabled :: bool

record QueryParameters_struct =
  QueryParameters_Enabled :: bool

record SlowQuery_struct =
  SlowQuery_Enabled :: bool
  SlowQuery_Threshold :: Duration

record DatastoreTracer_struct =
  DatastoreTracer_InstanceReporting :: InstanceReporting_struct
  DatastoreTracer_DatabaseNameReporting :: DatabaseNameReporting_struct
  DatastoreTracer_QueryParameters :: QueryParameters_struct
  DatastoreTracer_SlowQuery :: SlowQuery_struct

record RuntimeSampler_struct =
  RuntimeSampler_Enabled :: bool

record Config =
  AppName :: string
  License :: string
  Logger :: "Logger option"
  Enabled :: bool
  Labels :: "(string \<rightharpoonup> string) option"
  HighSecurity :: bool
  SecurityPoliciesToken :: string
  CustomInsightsEvents :: CustomInsightsEvents_struct
  TransactionEvents :: TransactionEvents_struct
  ErrorCollector :: ErrorCollector_struct
  TransactionTracer :: TransactionTracer_struct
  HostDisplayName :: string
  Transport :: "RoundTripper option"
  Utilization :: Utilization_struct
  CrossApplicationTracer :: CrossApplicationTracer_struct
  DistributedTracer :: DistributedTracer_struct
  SpanEvents :: SpanEvents_struct
  DatastoreTracer :: DatastoreTracer_struct
  Attributes :: AttributeDestinationConfig
  RuntimeSampler :: RuntimeSampler_struct

subsection \<open>The zero value \<open>Config{}\<close>\<close>

text \<open>
  Go fills a value declared without initialiser with zeros: the empty string, \<open>false\<close>,
  \<open>0\<close>, the nil interface, the nil map, the nil slice (a slice is a list here, the nil slice
  the empty list).
\<close>

definition zero_AttributeDestinationConfig :: AttributeDestinationConfig where
  "zero_AttributeDestinationConfig =
     \<lparr>AttributeDestinationConfig_Enabled = False, Include = [], Exclude = []\<rparr>"

definition zero_Config :: Config where
  "zero_Config =
     \<lparr>AppName = [],
      License = [],
      Logger = None,
      Enabled = False,
      Labels = None,
      HighSecurity = False,
      SecurityPoliciesToken = [],
      CustomInsightsEvents = \<lparr>CustomInsightsEvents_Enabled = False\<rparr>,
      TransactionEvents =
        \<lparr>TransactionEvents_Enabled = False,
         TransactionEvents_Attributes = zero_AttributeDestinationConfig\<rparr>,
      ErrorCollector =
        \<lparr>ErrorCollector_Enabled = False,
         ErrorCollector_CaptureEvents = False,
         ErrorCollector_IgnoreStatusCodes = [],
         ErrorCollector_Attributes = zero_AttributeDestinationConfig\<rparr>,
      TransactionTracer =
        \<lparr>TransactionTracer_Enabled = False,
         TransactionTracer_Threshold =
           \<lparr>Threshold_IsApdexFailing = False, Threshold_Duration = 0\<rparr>,
         TransactionTracer_SegmentThreshold = 0,
         TransactionTracer_StackTraceThreshold = 0,
         TransactionTracer_Attributes = zero_AttributeDestinationConfig\<rparr>,
      HostDisplayName = [],
      Transport = None,
      Utilization =
        \<lparr>Utilization_DetectAWS = False,
         Utilization_DetectAzure = False,
         Utilization_DetectPCF = False,
         Utilization_DetectGCP = False,
         Utilization_DetectDocker = False,
         Utilization_DetectKubernetes = False,
         Utilization_LogicalProcessors = 0,
         Utilization_TotalRAMMIB = 0,
         Utilization_BillingHostname = []\<rparr>,
      CrossApplicationTracer = \<lparr>CrossApplicationTracer_Enabled = False\<rparr>,
      DistributedTracer = \<lparr>DistributedTracer_Enabled = False\<rparr>,
      SpanEvents = \<lparr>SpanEvents_Enabled = False\<rparr>,
      DatastoreTracer =
        \<lparr>DatastoreTracer_InstanceReporting = \<lparr>InstanceReporting_Enabled = False\<rparr>,
         DatastoreTracer_DatabaseNameReporting = \<lparr>DatabaseNameReporting_Enabled = False\<rparr>,
         DatastoreTracer_QueryParameters = \<lparr>QueryParameters_Enabled = False\<rparr>,
         DatastoreTracer_SlowQuery = \<lparr>SlowQuery_Enabled = False, SlowQuery_Threshold = 0\<rparr>\<rparr>,
      Attributes = zero_AttributeDestinationConfig,
      RuntimeSampler = \<lparr>RuntimeSampler_Enabled = False\<rparr>\<rparr>"

subsection \<open>\<open>NewConfig\<close>\<close>

text \<open>
  \<open>NewConfig\<close> starts from the zero value and assigns field after field.  Every line of
  the chain below is one assignment of the source, in the source's order; an assignment to
  a field of a nested struct rewrites that struct inside \<open>c\<close>.
\<close>

definition NewConfig :: "string \<Rightarrow> string \<Rightarrow> Config" where
  "NewConfig appname license =
    (let c = zero_Config;
         c = c\<lparr>AppName := appname\<rparr>;
         c = c\<lparr>License := license\<rparr>;
         c = c\<lparr>Enabled := True\<rparr>;
         c = c\<lparr>Labels := Some Map.empty\<rparr>;
         c = c\<lparr>CustomInsightsEvents := (CustomInsightsEvents c)\<lparr>CustomInsightsEvents_Enabled := True\<rparr>\<rparr>;
         c = c\<lparr>TransactionEvents := (TransactionEvents c)\<lparr>TransactionEvents_Enabled := True\<rparr>\<rparr>;
         c = c\<lparr>TransactionEvents := (TransactionEvents c)\<lparr>TransactionEvents_Attributes :=
               (TransactionEvents_Attributes (TransactionEvents c))\<lparr>AttributeDestinationConfig_Enabled := True\<rparr>\<rparr>\<rparr>;
         c = c\<lparr>HighSecurity := False\<rparr>;
         c = c\<lparr>ErrorCollector := (ErrorCollector c)\<lparr>ErrorCollector_Enabled := True\<rparr>\<rparr>;
         c = c\<lparr>ErrorCollector := (ErrorCollector c)\<lparr>ErrorCollector_CaptureEvents := True\<rparr>\<rparr>;
         c = c\<lparr>ErrorCollector := (ErrorCollector c)\<lparr>ErrorCollector_IgnoreStatusCodes := [StatusNotFound]\<rparr>\<rparr>;
         c = c\<lparr>ErrorCollector := (ErrorCollector c)\<lparr>ErrorCollector_Attributes :=
               (ErrorCollector_Attributes (ErrorCollector c))\<lparr>AttributeDestinationConfig_Enabled := True\<rparr>\<rparr>\<rparr>;
         c = c\<lparr>Utilization := (Utilization c)\<lparr>Utilization_DetectAWS := True\<rparr>\<rparr>;
         c = c\<lparr>Utilization := (Utilization c)\<lparr>Utilization_DetectAzure := True\<rparr>\<rparr>;
         c = c\<lparr>Utilization := (Utilization c)\<lparr>Utilization_DetectPCF := True\<rparr>\<rparr>;
         c = c\<lparr>Utilization := (Utilization c)\<lparr>Utilization_DetectGCP := True\<rparr>\<rparr>;
         c = c\<lparr>Utilization := (Utilization c)\<lparr>Utilization_DetectDocker := True\<rparr>\<rparr>;
         c = c\<lparr>Utilization := (Utilization c)\<lparr>Utilization_DetectKubernetes := True\<rparr>\<rparr>;
         c = c\<lparr>Attributes := (Attributes c)\<lparr>AttributeDestinationConfig_Enabled := True\<rparr>\<rparr>;
         c = c\<lparr>RuntimeSampler := (RuntimeSampler c)\<lparr>RuntimeSampler_Enabled := True\<rparr>\<rparr>;
         c = c\<lparr>TransactionTracer := (TransactionTracer c)\<lparr>TransactionTracer_Enabled := True\<rparr>\<rparr>;
         c = c\<lparr>TransactionTracer := (TransactionTracer c)\<lparr>TransactionTracer_Threshold :=
               (TransactionTracer_Threshold (TransactionTracer c))\<lparr>Threshold_IsApdexFailing := True\<rparr>\<rparr>\<rparr>;
         c = c\<lparr>TransactionTracer := (TransactionTracer c)\<lparr>TransactionTracer_Threshold :=
               (TransactionTracer_Threshold (TransactionTracer c))\<lparr>Threshold_Duration := 500 * Millisecond\<rparr>\<rparr>\<rparr>;
         c = c\<lparr>TransactionTracer := (TransactionTracer c)\<lparr>TransactionTracer_SegmentThreshold := 2 * Millisecond\<rparr>\<rparr>;
         c = c\<lparr>TransactionTracer := (TransactionTracer c)\<lparr>TransactionTracer_StackTraceThreshold := 500 * Millisecond\<rparr>\<rparr>;
         c = c\<lparr>TransactionTracer := (TransactionTracer c)\<lparr>TransactionTracer_Attributes :=
               (TransactionTracer_Attributes (TransactionTracer c))\<lparr>AttributeDestinationConfig_Enabled := True\<rparr>\<rparr>\<rparr>;
         c = c\<lparr>CrossApplicationTracer := (CrossApplicationTracer c)\<lparr>CrossApplicationTracer_Enabled := True\<rparr>\<rparr>;
         c = c\<lparr>DistributedTracer := (DistributedTracer c)\<lparr>DistributedTracer_Enabled := False\<rparr>\<rparr>;
         c = c\<lparr>SpanEvents := (SpanEvents c)\<lparr>SpanEvents_Enabled := True\<rparr>\<rparr>;
         c = c\<lparr>DatastoreTracer := (DatastoreTracer c)\<lparr>DatastoreTracer_InstanceReporting :=
               (DatastoreTracer_InstanceReporting (DatastoreTracer c))\<lparr>InstanceReporting_Enabled := True\<rparr>\<rparr>\<rparr>;
         c = c\<lparr>DatastoreTracer := (DatastoreTracer c)\<lparr>DatastoreTracer_DatabaseNameReporting :=
               (DatastoreTracer_DatabaseNameReporting (DatastoreTracer c))\<lparr>DatabaseNameReporting_Enabled := True\<rparr>\<rparr>\<rparr>;
         c = c\<lparr>DatastoreTracer := (DatastoreTracer c)\<lparr>DatastoreTracer_QueryParameters :=
               (DatastoreTracer_QueryParameters (DatastoreTracer c))\<lparr>QueryParameters_Enabled := True\<rparr>\<rparr>\<rparr>;
         c = c\<lparr>DatastoreTracer := (DatastoreTracer c)\<lparr>DatastoreTracer_SlowQuery :=
               (DatastoreTracer_SlowQuery (DatastoreTracer c))\<lparr>SlowQuery_Enabled := True\<rparr>\<rparr>\<rparr>;
         c = c\<lparr>DatastoreTracer := (DatastoreTracer c)\<lparr>DatastoreTracer_SlowQuery :=
               (DatastoreTracer_SlowQuery (DatastoreTracer c))\<lparr>SlowQuery_Threshold := 10 * Millisecond\<rparr>\<rparr>\<rparr>
     in c)"

subsection \<open>\<open>Validate\<close>\<close>

definition licenseLength :: nat where
  "licenseLength = 40"

definition appNameLimit :: nat where
  "appNameLimit = 3"

text \<open>
  The five error values of the package.  In Go they are five distinct values created once,
  and \<open>Validate\<close> returns one of them or \<open>nil\<close>; \<open>nil\<close> is \<open>None\<close>.
\<close>

datatype error =
    errLicenseLen
  | errAppNameMissing
  | errAppNameLimit
  | errHighSecurityWithSecurityPolicies
  | errMixedTracers

text \<open>
  \<open>strings.Count(s, sep)\<close> of the Go standard library, for a separator of one byte, is the
  number of bytes of \<open>s\<close> equal to it (the library hands this case to its byte counter
  \<open>CountString\<close>).  \<open>Validate\<close> calls it with the separator \<open>";"\<close> only.
\<close>

primrec CountString :: "string \<Rightarrow> char \<Rightarrow> nat" where
  "CountString [] b = 0"
| "CountString (x # s) b = (if x = b then Suc (CountString s b) else CountString s b)"

definition Validate :: "Config \<Rightarrow> error option" where
  "Validate c =
    (if Enabled c \<and> length (License c) \<noteq> licenseLength then Some errLicenseLen
     else if \<not> Enabled c \<and> length (License c) \<noteq> licenseLength \<and> length (License c) \<noteq> 0
       then Some errLicenseLen
     else if [] = AppName c \<and> Enabled c then Some errAppNameMissing
     else if HighSecurity c \<and> [] \<noteq> SecurityPoliciesToken c
       then Some errHighSecurityWithSecurityPolicies
     else if CrossApplicationTracer_Enabled (CrossApplicationTracer c)
           \<and> DistributedTracer_Enabled (DistributedTracer c)
       then Some errMixedTracers
     else if CountString (AppName c) (CHR '';'') \<ge> appNameLimit then Some errAppNameLimit
     else None)"

subsection \<open>The invariants as the specification words them\<close>

text \<open>
  The specification lists five invariants of a configuration and the order in which the
  validator examines them.  The five predicates below say when a configuration violates
  each one, in the specification's words and independently of \<open>Validate\<close>;
  \<open>violated_checks\<close> lists the rejection reasons of the violated ones in the stated order.
  They serve to compare \<open>Validate\<close> with the specification.
\<close>

definition violates_credential_length :: "Config \<Rightarrow> bool" where
  "violates_credential_length c =
     (if Enabled c then length (License c) \<noteq> 40
      else length (License c) \<noteq> 40 \<and> License c \<noteq> [])"

definition violates_name_required :: "Config \<Rightarrow> bool" where
  "violates_name_required c = (Enabled c \<and> AppName c = [])"

definition violates_security_policy :: "Config \<Rightarrow> bool" where
  "violates_security_policy c = (HighSecurity c \<and> SecurityPoliciesToken c \<noteq> [])"

definition violates_tracing_strategy :: "Config \<Rightarrow> bool" where
  "violates_tracing_strategy c =
     (CrossApplicationTracer_Enabled (CrossApplicationTracer c)
      \<and> DistributedTracer_Enabled (DistributedTracer c))"

definition violates_rollup_limit :: "Config \<Rightarrow> bool" where
  "violates_rollup_limit c = (3 \<le> CountString (AppName c) (CHR '';''))"

definition violated_checks :: "Config \<Rightarrow> error list" where
  "violated_checks c =
     (if violates_credential_length c then [errLicenseLen] else []) @
     (if violates_name_required c then [errAppNameMissing] else []) @
     (if violates_security_policy c then [errHighSecurityWithSecurityPolicies] else []) @
     (if violates_tracing_strategy c then [errMixedTracers] else []) @
     (if violates_rollup_limit c then [errAppNameLimit] else [])"

section \<open>Properties\<close>

subsection \<open>What \<open>NewConfig\<close> builds\<close>

lemma NewConfig_validated_fields:
  "AppName (NewConfig appname license) = appname"
  "License (NewConfig appname license) = license"
  "Enabled (NewConfig appname license) = True"
  "HighSecurity (NewConfig appname license) = False"
  "SecurityPoliciesToken (NewConfig appname license) = []"
  "CrossApplicationTracer_Enabled (CrossApplicationTracer (NewConfig appname license)) = True"
  "DistributedTracer_Enabled (DistributedTracer (NewConfig appname license)) = False"
  by (simp_all add: NewConfig_def zero_Config_def)


lemmas violates_defs =
  violates_credential_length_def violates_name_required_def violates_security_policy_def
  violates_tracing_strategy_def violates_rollup_limit_def

lemma Validate_first_violated:
  "Validate c = (case violated_checks c of [] \<Rightarrow> None | e # es \<Rightarrow> Some e)"
  by (auto simp add: Validate_def violated_checks_def violates_defs licenseLength_def
      appNameLimit_def)

lemma distinct_violated_checks: "distinct (violated_checks c)"
  by (simp add: violated_checks_def)

subsection \<open>Default configurations validate\<close>

text \<open>
  Claim C1.  For every application name that is not empty and holds fewer than three
  \<open>;\<close> delimiters, and every credential of exactly 40 characters, \<open>Validate\<close> accepts the
  configuration that \<open>NewConfig\<close> builds from them: it returns \<open>nil\<close>.
\<close>

theorem Validate_NewConfig_ok:
  assumes "appname \<noteq> []"
    and "CountString appname (CHR '';'') < 3"
    and "length license = 40"
  shows "Validate (NewConfig appname license) = None"
  using assms
  by (simp add: Validate_def NewConfig_validated_fields licenseLength_def appNameLimit_def)

theorem Validate_NewConfig_ok_witness:
  "''svc'' \<noteq> [] \<and> CountString ''svc'' (CHR '';'') < 3
   \<and> length ''0123456789abcdef0123456789abcdef01234567'' = 40
   \<and> Validate (NewConfig ''svc'' ''0123456789abcdef0123456789abcdef01234567'') = None"
  using Validate_NewConfig_ok [of "''svc''" "''0123456789abcdef0123456789abcdef01234567''"]
  by simp

subsection \<open>The order of the checks\<close>

text \<open>
  Claim C2.  For every configuration that violates more than one of the five invariants,
  \<open>Validate\<close> returns the reason of the first violated check in the order credential
  length, application name missing, high security with a security-policy token, both
  tracers enabled, too many rollup names; the reason of no later violated check is
  returned.
\<close>

theorem Validate_reports_first_violation:
  assumes "1 < length (violated_checks c)"
  shows "Validate c = Some (hd (violated_checks c))
         \<and> (\<forall>e \<in> set (tl (violated_checks c)). Validate c \<noteq> Some e)"
proof -
  from assms obtain e es where ves: "violated_checks c = e # es"
    by (cases "violated_checks c") auto
  have first: "Validate c = Some e"
    by (simp add: Validate_first_violated ves)
  have "e \<notin> set es"
    using distinct_violated_checks [of c] by (simp add: ves)
  then have "\<forall>e' \<in> set es. Some e \<noteq> Some e'"
    by auto
  with first show ?thesis
    by (simp add: ves)
qed

theorem Validate_reports_first_violation_witness:
  "violated_checks
      ((NewConfig [] [])\<lparr>HighSecurity := True, SecurityPoliciesToken := ''token'',
          DistributedTracer := \<lparr>DistributedTracer_Enabled = True\<rparr>\<rparr>)
     = [errLicenseLen, errAppNameMissing, errHighSecurityWithSecurityPolicies, errMixedTracers]
   \<and> Validate
      ((NewConfig [] [])\<lparr>HighSecurity := True, SecurityPoliciesToken := ''token'',
          DistributedTracer := \<lparr>DistributedTracer_Enabled = True\<rparr>\<rparr>)
     = Some errLicenseLen"
proof -
  let ?c = "(NewConfig [] [])\<lparr>HighSecurity := True, SecurityPoliciesToken := ''token'',
          DistributedTracer := \<lparr>DistributedTracer_Enabled = True\<rparr>\<rparr>"
  have ves: "violated_checks ?c
      = [errLicenseLen, errAppNameMissing, errHighSecurityWithSecurityPolicies, errMixedTracers]"
    by (simp add: violated_checks_def violates_defs NewConfig_validated_fields)
  then have "1 < length (violated_checks ?c)"
    by simp
  from Validate_reports_first_violation [OF this] have "Validate ?c = Some errLicenseLen"
    by (simp add: ves)
  with ves show ?thesis
    by simp
qed

subsection \<open>The credential check\<close>

text \<open>
  Claim C3.  For every enabled configuration whose credential has a length other than 40
  (the empty credential included), \<open>Validate\<close> returns \<open>errLicenseLen\<close>.  For every
  disabled configuration, the empty credential and a credential of exactly 40 characters
  pass the credential check, that is \<open>Validate\<close> does not return \<open>errLicenseLen\<close>; a
  credential of any other length is rejected with \<open>errLicenseLen\<close>.
\<close>

theorem Validate_credential_length:
  "(Enabled c \<and> length (License c) \<noteq> 40 \<longrightarrow> Validate c = Some errLicenseLen)
   \<and> (\<not> Enabled c \<and> (License c = [] \<or> length (License c) = 40)
        \<longrightarrow> Validate c \<noteq> Some errLicenseLen)
   \<and> (\<not> Enabled c \<and> License c \<noteq> [] \<and> length (License c) \<noteq> 40
        \<longrightarrow> Validate c = Some errLicenseLen)"
  by (simp add: Validate_def licenseLength_def)

theorem Validate_credential_length_witness:
  "Validate (NewConfig ''svc'' []) = Some errLicenseLen
   \<and> Validate (NewConfig ''svc'' ''short'') = Some errLicenseLen
   \<and> Validate ((NewConfig ''svc'' [])\<lparr>Enabled := False\<rparr>) \<noteq> Some errLicenseLen
   \<and> Validate ((NewConfig ''svc'' ''0123456789abcdef0123456789abcdef01234567'')\<lparr>Enabled := False\<rparr>)
        \<noteq> Some errLicenseLen
   \<and> Validate ((NewConfig ''svc'' ''short'')\<lparr>Enabled := False\<rparr>) = Some errLicenseLen"
  using Validate_credential_length [of "NewConfig ''svc'' []"]
    Validate_credential_length [of "NewConfig ''svc'' ''short''"]
    Validate_credential_length [of "(NewConfig ''svc'' [])\<lparr>Enabled := False\<rparr>"]
    Validate_credential_length
      [of "(NewConfig ''svc'' ''0123456789abcdef0123456789abcdef01234567'')\<lparr>Enabled := False\<rparr>"]
    Validate_credential_length [of "(NewConfig ''svc'' ''short'')\<lparr>Enabled := False\<rparr>"]
  by (simp add: NewConfig_validated_fields)

subsection \<open>The application name check\<close>

text \<open>
  Claim C4, as stated: every enabled configuration with an empty application name is
  rejected with \<open>errAppNameMissing\<close>.  The credential is examined first, so the
  configuration \<open>NewConfig("", "")\<close>, enabled and with an empty name, is rejected with
  \<open>errLicenseLen\<close> instead.
\<close>

theorem Validate_empty_name_counterexample:
  "Enabled (NewConfig [] []) \<and> AppName (NewConfig [] []) = []
   \<and> Validate (NewConfig [] []) = Some errLicenseLen
   \<and> Validate (NewConfig [] []) \<noteq> Some errAppNameMissing"
  by (simp add: Validate_def NewConfig_validated_fields licenseLength_def)

text \<open>
  Claim C4, amended.  For every enabled configuration with an empty application name,
  \<open>Validate\<close> returns \<open>errAppNameMissing\<close> when the credential has exactly 40 characters,
  and \<open>errLicenseLen\<close> otherwise.
\<close>

theorem Validate_empty_name:
  assumes "Enabled c" and "AppName c = []"
  shows "Validate c =
           (if length (License c) = 40 then Some errAppNameMissing else Some errLicenseLen)"
  using assms by (simp add: Validate_def licenseLength_def)

theorem Validate_empty_name_witness:
  "Enabled (NewConfig [] ''0123456789abcdef0123456789abcdef01234567'')
   \<and> AppName (NewConfig [] ''0123456789abcdef0123456789abcdef01234567'') = []
   \<and> Validate (NewConfig [] ''0123456789abcdef0123456789abcdef01234567'')
        = Some errAppNameMissing"
  using Validate_empty_name [of "NewConfig [] ''0123456789abcdef0123456789abcdef01234567''"]
  by (simp add: NewConfig_validated_fields)


subsection \<open>High security and security policies\<close>

text \<open>
  Claim C5, as stated: every configuration with \<open>HighSecurity\<close> set and a non-empty
  \<open>SecurityPoliciesToken\<close> is rejected with \<open>errHighSecurityWithSecurityPolicies\<close>,
  whatever the other fields hold.  The credential and the application name are examined
  first: the default configuration for the name \<open>svc\<close> with an empty credential, with
  high security and a token set, is rejected with \<open>errLicenseLen\<close>.
\<close>

theorem Validate_security_policy_counterexample:
  "HighSecurity ((NewConfig ''svc'' [])\<lparr>HighSecurity := True, SecurityPoliciesToken := ''token''\<rparr>)
   \<and> SecurityPoliciesToken
        ((NewConfig ''svc'' [])\<lparr>HighSecurity := True, SecurityPoliciesToken := ''token''\<rparr>) \<noteq> []
   \<and> Validate ((NewConfig ''svc'' [])\<lparr>HighSecurity := True, SecurityPoliciesToken := ''token''\<rparr>)
        = Some errLicenseLen
   \<and> Validate ((NewConfig ''svc'' [])\<lparr>HighSecurity := True, SecurityPoliciesToken := ''token''\<rparr>)
        \<noteq> Some errHighSecurityWithSecurityPolicies"
  by (simp add: Validate_def NewConfig_validated_fields licenseLength_def)

text \<open>
  Claim C5, amended.  For every configuration with \<open>HighSecurity\<close> set and a non-empty
  \<open>SecurityPoliciesToken\<close> that passes the credential check (the credential has 40
  characters, or the agent is disabled and the credential is empty) and the application
  name check (the name is not empty, or the agent is disabled), \<open>Validate\<close> returns
  \<open>errHighSecurityWithSecurityPolicies\<close>, whatever the remaining fields hold.
\<close>

theorem Validate_security_policy:
  assumes "HighSecurity c" and "SecurityPoliciesToken c \<noteq> []"
    and "length (License c) = 40 \<or> (\<not> Enabled c \<and> License c = [])"
    and "AppName c \<noteq> [] \<or> \<not> Enabled c"
  shows "Validate c = Some errHighSecurityWithSecurityPolicies"
  using assms by (auto simp add: Validate_def licenseLength_def)

theorem Validate_security_policy_witness:
  "Validate
     ((NewConfig ''a;b;c;d'' ''0123456789abcdef0123456789abcdef01234567'')
        \<lparr>HighSecurity := True, SecurityPoliciesToken := ''token'',
         DistributedTracer := \<lparr>DistributedTracer_Enabled = True\<rparr>\<rparr>)
     = Some errHighSecurityWithSecurityPolicies
   \<and> Validate
     ((NewConfig [] [])
        \<lparr>Enabled := False, HighSecurity := True, SecurityPoliciesToken := ''token''\<rparr>)
     = Some errHighSecurityWithSecurityPolicies"
proof -
  let ?c = "(NewConfig ''a;b;c;d'' ''0123456789abcdef0123456789abcdef01234567'')
        \<lparr>HighSecurity := True, SecurityPoliciesToken := ''token'',
         DistributedTracer := \<lparr>DistributedTracer_Enabled = True\<rparr>\<rparr>"
  let ?d = "(NewConfig [] [])
        \<lparr>Enabled := False, HighSecurity := True, SecurityPoliciesToken := ''token''\<rparr>"
  have "Validate ?c = Some errHighSecurityWithSecurityPolicies"
    by (rule Validate_security_policy) (simp_all add: NewConfig_validated_fields)
  moreover have "Validate ?d = Some errHighSecurityWithSecurityPolicies"
    by (rule Validate_security_policy) (simp_all add: NewConfig_validated_fields)
  ultimately show ?thesis
    by simp
qed

subsection \<open>The two tracers\<close>

text \<open>
  Claim C6.  Take the configuration that \<open>NewConfig\<close> builds from a valid application name
  (not empty, fewer than three \<open>;\<close>) and a credential of 40 characters, and enable both
  the cross-application tracer and the distributed tracer, every other field staying as
  built: \<open>Validate\<close> returns \<open>errMixedTracers\<close>.
\<close>

theorem Validate_mixed_tracers:
  assumes "appname \<noteq> []"
    and "CountString appname (CHR '';'') < 3"
    and "length license = 40"
  shows "Validate
           ((NewConfig appname license)
              \<lparr>CrossApplicationTracer := \<lparr>CrossApplicationTracer_Enabled = True\<rparr>,
               DistributedTracer := \<lparr>DistributedTracer_Enabled = True\<rparr>\<rparr>)
         = Some errMixedTracers"
  using assms by (simp add: Validate_def NewConfig_validated_fields licenseLength_def)

theorem Validate_mixed_tracers_witness:
  "''svc'' \<noteq> [] \<and> CountString ''svc'' (CHR '';'') < 3
   \<and> length ''0123456789abcdef0123456789abcdef01234567'' = 40
   \<and> Validate
        ((NewConfig ''svc'' ''0123456789abcdef0123456789abcdef01234567'')
           \<lparr>CrossApplicationTracer := \<lparr>CrossApplicationTracer_Enabled = True\<rparr>,
            DistributedTracer := \<lparr>DistributedTracer_Enabled = True\<rparr>\<rparr>)
      = Some errMixedTracers"
  using Validate_mixed_tracers [of "''svc''" "''0123456789abcdef0123456789abcdef01234567''"]
  by simp

subsection \<open>The limit on rollup names\<close>

text \<open>
  Claim C7.  For every configuration that passes the four earlier checks (credential,
  application name, security policy, tracers), \<open>Validate\<close> returns \<open>errAppNameLimit\<close>
  exactly when the application name holds three or more \<open>;\<close>, and accepts the
  configuration otherwise.  In particular such a configuration named \<open>a;b;c\<close> is accepted
  and one named \<open>a;b;c;d\<close> is rejected with \<open>errAppNameLimit\<close>.
\<close>

theorem Validate_rollup_limit:
  assumes "length (License c) = 40 \<or> (\<not> Enabled c \<and> License c = [])"
    and "AppName c \<noteq> [] \<or> \<not> Enabled c"
    and "\<not> (HighSecurity c \<and> SecurityPoliciesToken c \<noteq> [])"
    and "\<not> (CrossApplicationTracer_Enabled (CrossApplicationTracer c)
            \<and> DistributedTracer_Enabled (DistributedTracer c))"
  shows "(Validate c = Some errAppNameLimit) = (3 \<le> CountString (AppName c) (CHR '';''))
         \<and> (CountString (AppName c) (CHR '';'') < 3 \<longrightarrow> Validate c = None)
         \<and> (AppName c = ''a;b;c'' \<longrightarrow> Validate c = None)
         \<and> (AppName c = ''a;b;c;d'' \<longrightarrow> Validate c = Some errAppNameLimit)"
proof -
  have v: "Validate c =
      (if 3 \<le> CountString (AppName c) (CHR '';'') then Some errAppNameLimit else None)"
    using assms by (auto simp add: Validate_def licenseLength_def appNameLimit_def)
  show ?thesis
    by (simp add: v)
qed

theorem Validate_rollup_limit_witness:
  "CountString ''a;b;c'' (CHR '';'') = 2
   \<and> Validate (NewConfig ''a;b;c'' ''0123456789abcdef0123456789abcdef01234567'') = None
   \<and> CountString ''a;b;c;d'' (CHR '';'') = 3
   \<and> Validate (NewConfig ''a;b;c;d'' ''0123456789abcdef0123456789abcdef01234567'')
        = Some errAppNameLimit"
  using Validate_rollup_limit [of "NewConfig ''a;b;c'' ''0123456789abcdef0123456789abcdef01234567''"]
    Validate_rollup_limit [of "NewConfig ''a;b;c;d'' ''0123456789abcdef0123456789abcdef01234567''"]
  by (simp add: NewConfig_validated_fields)


subsection \<open>The defaults of \<open>NewConfig\<close>\<close>

text \<open>
  Claim C8.  For every application name and credential, the configuration built by
  \<open>NewConfig\<close> has every feature switch on: custom events, transaction events, error
  collection (and its event capture), transaction tracing, span events, the four
  datastore-tracer switches, runtime sampling, the six host-environment detection switches
  and cross-application tracing; only distributed tracing is off.  Its list of ignored
  status codes is exactly \<open>[404]\<close>.
\<close>

theorem NewConfig_defaults:
  "CustomInsightsEvents_Enabled (CustomInsightsEvents (NewConfig appname license))
   \<and> TransactionEvents_Enabled (TransactionEvents (NewConfig appname license))
   \<and> ErrorCollector_Enabled (ErrorCollector (NewConfig appname license))
   \<and> ErrorCollector_CaptureEvents (ErrorCollector (NewConfig appname license))
   \<and> TransactionTracer_Enabled (TransactionTracer (NewConfig appname license))
   \<and> SpanEvents_Enabled (SpanEvents (NewConfig appname license))
   \<and> InstanceReporting_Enabled
        (DatastoreTracer_InstanceReporting (DatastoreTracer (NewConfig appname license)))
   \<and> DatabaseNameReporting_Enabled
        (DatastoreTracer_DatabaseNameReporting (DatastoreTracer (NewConfig appname license)))
   \<and> QueryParameters_Enabled
        (DatastoreTracer_QueryParameters (DatastoreTracer (NewConfig appname license)))
   \<and> SlowQuery_Enabled (DatastoreTracer_SlowQuery (DatastoreTracer (NewConfig appname license)))
   \<and> RuntimeSampler_Enabled (RuntimeSampler (NewConfig appname license))
   \<and> Utilization_DetectAWS (Utilization (NewConfig appname license))
   \<and> Utilization_DetectAzure (Utilization (NewConfig appname license))
   \<and> Utilization_DetectPCF (Utilization (NewConfig appname license))
   \<and> Utilization_DetectGCP (Utilization (NewConfig appname license))
   \<and> Utilization_DetectDocker (Utilization (NewConfig appname license))
   \<and> Utilization_DetectKubernetes (Utilization (NewConfig appname license))
   \<and> CrossApplicationTracer_Enabled (CrossApplicationTracer (NewConfig appname license))
   \<and> \<not> DistributedTracer_Enabled (DistributedTracer (NewConfig appname license))
   \<and> ErrorCollector_IgnoreStatusCodes (ErrorCollector (NewConfig appname license)) = [404]"
  by (simp add: NewConfig_def zero_Config_def StatusNotFound_def)

subsection \<open>The fields \<open>Validate\<close> reads\<close>

text \<open>
  Claim C9.  Two configurations that agree on \<open>Enabled\<close>, \<open>License\<close>, \<open>AppName\<close>,
  \<open>HighSecurity\<close>, \<open>SecurityPoliciesToken\<close>, \<open>CrossApplicationTracer.Enabled\<close> and
  \<open>DistributedTracer.Enabled\<close> get the same result from \<open>Validate\<close>, however their other
  fields differ.
\<close>

theorem Validate_depends_on_seven_fields:
  assumes "Enabled c1 = Enabled c2"
    and "License c1 = License c2"
    and "AppName c1 = AppName c2"
    and "HighSecurity c1 = HighSecurity c2"
    and "SecurityPoliciesToken c1 = SecurityPoliciesToken c2"
    and "CrossApplicationTracer_Enabled (CrossApplicationTracer c1)
         = CrossApplicationTracer_Enabled (CrossApplicationTracer c2)"
    and "DistributedTracer_Enabled (DistributedTracer c1)
         = DistributedTracer_Enabled (DistributedTracer c2)"
  shows "Validate c1 = Validate c2"
  by (simp only: Validate_def assms)

theorem Validate_depends_on_seven_fields_witness:
  "HostDisplayName (NewConfig ''a;b;c;d'' ''0123456789abcdef0123456789abcdef01234567'')
     \<noteq> HostDisplayName
         ((NewConfig ''a;b;c;d'' ''0123456789abcdef0123456789abcdef01234567'')
            \<lparr>Labels := None, HostDisplayName := ''host'',
             SpanEvents := \<lparr>SpanEvents_Enabled = False\<rparr>,
             Attributes := \<lparr>AttributeDestinationConfig_Enabled = False,
                            Include = [''request.*''], Exclude = []\<rparr>\<rparr>)
   \<and> Validate (NewConfig ''a;b;c;d'' ''0123456789abcdef0123456789abcdef01234567'')
     = Validate
         ((NewConfig ''a;b;c;d'' ''0123456789abcdef0123456789abcdef01234567'')
            \<lparr>Labels := None, HostDisplayName := ''host'',
             SpanEvents := \<lparr>SpanEvents_Enabled = False\<rparr>,
             Attributes := \<lparr>AttributeDestinationConfig_Enabled = False,
                            Include = [''request.*''], Exclude = []\<rparr>\<rparr>)"
proof -
  let ?c1 = "NewConfig ''a;b;c;d'' ''0123456789abcdef0123456789abcdef01234567''"
  let ?c2 = "?c1\<lparr>Labels := None, HostDisplayName := ''host'',
             SpanEvents := \<lparr>SpanEvents_Enabled = False\<rparr>,
             Attributes := \<lparr>AttributeDestinationConfig_Enabled = False,
                            Include = [''request.*''], Exclude = []\<rparr>\<rparr>"
  have "Validate ?c1 = Validate ?c2"
    by (rule Validate_depends_on_seven_fields) simp_all
  moreover have "HostDisplayName ?c1 \<noteq> HostDisplayName ?c2"
    by (simp add: NewConfig_def zero_Config_def)
  ultimately show ?thesis
    by simp
qed

subsection \<open>Disabled configurations\<close>

text \<open>
  Claim C10, as stated: every disabled configuration whose application name holds three
  or more \<open>;\<close> is rejected with \<open>errAppNameLimit\<close>.  The tracer check comes before the
  rollup check: a disabled configuration named \<open>a;b;c;d\<close> with both tracers enabled is
  rejected with \<open>errMixedTracers\<close>.
\<close>

theorem Validate_disabled_counterexample:
  "\<not> Enabled
       ((NewConfig ''a;b;c;d'' ''0123456789abcdef0123456789abcdef01234567'')
          \<lparr>Enabled := False, DistributedTracer := \<lparr>DistributedTracer_Enabled = True\<rparr>\<rparr>)
   \<and> 3 \<le> CountString
       (AppName
         ((NewConfig ''a;b;c;d'' ''0123456789abcdef0123456789abcdef01234567'')
            \<lparr>Enabled := False, DistributedTracer := \<lparr>DistributedTracer_Enabled = True\<rparr>\<rparr>))
       (CHR '';'')
   \<and> Validate
       ((NewConfig ''a;b;c;d'' ''0123456789abcdef0123456789abcdef01234567'')
          \<lparr>Enabled := False, DistributedTracer := \<lparr>DistributedTracer_Enabled = True\<rparr>\<rparr>)
     = Some errMixedTracers
   \<and> Validate
       ((NewConfig ''a;b;c;d'' ''0123456789abcdef0123456789abcdef01234567'')
          \<lparr>Enabled := False, DistributedTracer := \<lparr>DistributedTracer_Enabled = True\<rparr>\<rparr>)
     \<noteq> Some errAppNameLimit"
  by (simp add: Validate_def NewConfig_validated_fields licenseLength_def)

text \<open>
  Claim C10, amended.  For every disabled configuration, \<open>Validate\<close> never returns
  \<open>errAppNameMissing\<close>: the empty-name check is skipped.  If moreover the configuration
  passes the credential check (the credential is empty or has 40 characters), the
  security-policy check and the tracer check, then it is accepted when its application name
  is empty, and rejected with \<open>errAppNameLimit\<close> when its application name holds three or
  more \<open>;\<close>.
\<close>

theorem Validate_disabled:
  assumes "\<not> Enabled c"
  shows "Validate c \<noteq> Some errAppNameMissing
         \<and> ((License c = [] \<or> length (License c) = 40)
              \<and> \<not> (HighSecurity c \<and> SecurityPoliciesToken c \<noteq> [])
              \<and> \<not> (CrossApplicationTracer_Enabled (CrossApplicationTracer c)
                     \<and> DistributedTracer_Enabled (DistributedTracer c))
            \<longrightarrow> (AppName c = [] \<longrightarrow> Validate c = None)
                \<and> (3 \<le> CountString (AppName c) (CHR '';'')
                      \<longrightarrow> Validate c = Some errAppNameLimit))"
proof -
  have skipped: "Validate c \<noteq> Some errAppNameMissing"
    using assms by (simp add: Validate_def)
  have rest: "Validate c =
      (if 3 \<le> CountString (AppName c) (CHR '';'') then Some errAppNameLimit else None)"
    if "License c = [] \<or> length (License c) = 40"
      and "\<not> (HighSecurity c \<and> SecurityPoliciesToken c \<noteq> [])"
      and "\<not> (CrossApplicationTracer_Enabled (CrossApplicationTracer c)
              \<and> DistributedTracer_Enabled (DistributedTracer c))"
    using assms that by (auto simp add: Validate_def licenseLength_def appNameLimit_def)
  have empty: "\<not> 3 \<le> CountString (AppName c) (CHR '';'')" if "AppName c = []"
    using that by simp
  from skipped rest empty show ?thesis
    by simp
qed

theorem Validate_disabled_witness:
  "\<not> Enabled ((NewConfig [] [])\<lparr>Enabled := False\<rparr>)
   \<and> Validate ((NewConfig [] [])\<lparr>Enabled := False\<rparr>) = None
   \<and> \<not> Enabled ((NewConfig ''a;b;c;d'' [])\<lparr>Enabled := False\<rparr>)
   \<and> Validate ((NewConfig ''a;b;c;d'' [])\<lparr>Enabled := False\<rparr>) = Some errAppNameLimit"
  using Validate_disabled [of "(NewConfig [] [])\<lparr>Enabled := False\<rparr>"]
    Validate_disabled [of "(NewConfig ''a;b;c;d'' [])\<lparr>Enabled := False\<rparr>"]
  by (simp add: NewConfig_validated_fields)

end
